theory Spec2Isabelle
  imports Complex_Main
begin

section \<open>SQL values\<close>

text \<open>
  Identifiers are uuids; the trigger compares them with \<open><\<close>, so all that matters is
  that they carry a total order. Timestamps are the values of \<open>now()\<close>. A column is
  an \<open>option\<close>, \<open>None\<close> being NULL, when it is NULL unless the writer supplies a value.
  A column declared \<open>NOT NULL\<close>, or given a \<open>DEFAULT\<close> that every write of the sources
  leaves in place or replaces by a value (the counters, which the client's
  \<open>Conversation\<close> interface types as \<open>number\<close>, the flags, the role, the timestamps),
  is a plain value.

  Primary keys, the \<open>UNIQUE\<close> and \<open>CHECK\<close> constraints, the range of \<open>integer\<close>,
  the foreign keys between modelled tables and the row-level policies on \<open>users\<close> and
  \<open>advertisements\<close> are modelled. A statement that violates a constraint returns an error
  and changes nothing; a row that an \<open>UPDATE\<close> or \<open>DELETE\<close> policy does not admit is
  skipped without error. PostgreSQL checks a foreign key that is not deferrable when the
  statement that wrote the referencing row ends. The caller's identity \<open>auth.uid()\<close> is
  the id of the signed-in user. Foreign keys into tables outside the model (the users of
  the authentication schema, the advertisements seen from the messaging tables) are left
  out, and so are the policies on the two messaging tables, which admit what the modal
  does as sender, receiver or participant. Statements run one after the other;
  concurrent transactions are not modelled.

  A column name that several tables share (\<open>id\<close>, \<open>advertisement_id\<close>, \<open>created_at\<close>)
  carries the initial of its table, and a list that the client holds under the name of a
  table carries the suffix \<open>_state\<close>.
\<close>

type_synonym uuid = nat
type_synonym timestamptz = nat

datatype sql_error =
    unique_violation
  | numeric_value_out_of_range
  | check_violation
  | foreign_key_violation
  | insufficient_privilege
  | invalid_text_representation
  | raise_exception string

text \<open>
  Comparison and connectives of SQL are three-valued: \<open>None\<close> is unknown. A \<open>WHERE\<close>
  clause keeps a row only when its condition is true.
\<close>

definition sql_eq :: "'a option \<Rightarrow> 'a option \<Rightarrow> bool option" where
  "sql_eq a b = (case a of None \<Rightarrow> None
                 | Some x \<Rightarrow> (case b of None \<Rightarrow> None | Some y \<Rightarrow> Some (x = y)))"

definition sql_is_null :: "'a option \<Rightarrow> bool option" where
  "sql_is_null a = Some (a = None)"

definition sql_and :: "bool option \<Rightarrow> bool option \<Rightarrow> bool option" where
  "sql_and p q = (if p = Some False \<or> q = Some False then Some False
                  else if p = Some True \<and> q = Some True then Some True else None)"

definition sql_or :: "bool option \<Rightarrow> bool option \<Rightarrow> bool option" where
  "sql_or p q = (if p = Some True \<or> q = Some True then Some True
                 else if p = Some False \<and> q = Some False then Some False else None)"

definition sql_true :: "bool option \<Rightarrow> bool" where
  "sql_true p = (p = Some True)"

text \<open>\<open>integer\<close> is a 32-bit signed type; an addition that leaves it raises an error.\<close>

definition int4_add :: "int \<Rightarrow> int \<Rightarrow> sql_error + int" where
  "int4_add a b = (if a + b < - 2147483648 \<or> 2147483647 < a + b
                   then Inl numeric_value_out_of_range else Inr (a + b))"

section \<open>The messaging tables\<close>

record conversation =
  c_id :: uuid
  user1_id :: uuid
  user2_id :: uuid
  c_advertisement_id :: "uuid option"
  last_message_id :: "uuid option"
  user1_unread_count :: int
  user2_unread_count :: int
  c_created_at :: timestamptz
  updated_at :: timestamptz

record message =
  m_id :: uuid
  sender_id :: uuid
  receiver_id :: uuid
  conversation_id :: "uuid option"
  m_advertisement_id :: "uuid option"
  content :: string
  is_read :: bool
  m_created_at :: timestamptz

record messaging_db =
  conversations :: "conversation list"
  messages :: "message list"

definition empty_db :: messaging_db where
  "empty_db = \<lparr>conversations = [], messages = []\<rparr>"

section \<open>The trigger \<open>set_message_conversation\<close>\<close>

text \<open>Smaller uuid first; when the two are equal the \<open>ELSE\<close> branch runs.\<close>

definition canonical_pair :: "uuid \<Rightarrow> uuid \<Rightarrow> uuid \<times> uuid" where
  "canonical_pair sender receiver =
     (if sender < receiver then (sender, receiver) else (receiver, sender))"

text \<open>The \<open>WHERE\<close> clause of the lookup, as written.\<close>

definition conversation_matches :: "uuid \<Rightarrow> uuid \<Rightarrow> uuid option \<Rightarrow> conversation \<Rightarrow> bool" where
  "conversation_matches user1 user2 adv c =
     sql_true
       (sql_and
         (sql_and (sql_eq (Some (user1_id c)) (Some user1))
                  (sql_eq (Some (user2_id c)) (Some user2)))
         (sql_or (sql_eq (c_advertisement_id c) adv)
                 (sql_and (sql_is_null (c_advertisement_id c)) (sql_is_null adv))))"

text \<open>\<open>SELECT id INTO conv_id\<close>: the first row found, NULL when there is none.\<close>

definition select_conversation ::
  "uuid \<Rightarrow> uuid \<Rightarrow> uuid option \<Rightarrow> conversation list \<Rightarrow> uuid option" where
  "select_conversation user1 user2 adv cs =
     map_option c_id (find (conversation_matches user1 user2 adv) cs)"

text \<open>
  The \<open>UNIQUE(user1_id, user2_id, advertisement_id)\<close> constraint compares with ordinary
  equality, so two rows with a NULL advertisement never conflict.
\<close>

definition unique_conflict :: "uuid \<Rightarrow> uuid \<Rightarrow> uuid option \<Rightarrow> conversation \<Rightarrow> bool" where
  "unique_conflict user1 user2 adv c =
     sql_true
       (sql_and
         (sql_and (sql_eq (Some (user1_id c)) (Some user1))
                  (sql_eq (Some (user2_id c)) (Some user2)))
         (sql_eq (c_advertisement_id c) adv))"

text \<open>
  \<open>INSERT INTO conversations (user1_id, user2_id, advertisement_id)\<close>: the other columns
  take their defaults, the id being the uuid \<open>gen\<close> that \<open>gen_random_uuid()\<close> returns.
\<close>

definition insert_conversation ::
  "timestamptz \<Rightarrow> uuid \<Rightarrow> uuid \<Rightarrow> uuid \<Rightarrow> uuid option \<Rightarrow> conversation list
     \<Rightarrow> sql_error + conversation list" where
  "insert_conversation now gen user1 user2 adv cs =
     (if gen \<in> c_id ` set cs then Inl unique_violation
      else if \<exists>c \<in> set cs. unique_conflict user1 user2 adv c then Inl unique_violation
      else Inr (cs @ [\<lparr>c_id = gen, user1_id = user1, user2_id = user2,
                        c_advertisement_id = adv, last_message_id = None,
                        user1_unread_count = 0, user2_unread_count = 0,
                        c_created_at = now, updated_at = now\<rparr>]))"

text \<open>Find or create: the id of the conversation the message belongs to.\<close>

definition find_or_create ::
  "timestamptz \<Rightarrow> uuid \<Rightarrow> uuid \<Rightarrow> uuid \<Rightarrow> uuid option \<Rightarrow> conversation list
     \<Rightarrow> sql_error + (conversation list \<times> uuid)" where
  "find_or_create now gen user1 user2 adv cs =
     (case select_conversation user1 user2 adv cs of
        Some conv_id \<Rightarrow> Inr (cs, conv_id)
      | None \<Rightarrow>
          (case insert_conversation now gen user1 user2 adv cs of
             Inl e \<Rightarrow> Inl e
           | Inr cs' \<Rightarrow> Inr (cs', gen)))"

text \<open>The \<open>SET\<close> list of the metadata update, on one row.\<close>

definition update_metadata ::
  "timestamptz \<Rightarrow> message \<Rightarrow> uuid \<Rightarrow> uuid \<Rightarrow> conversation \<Rightarrow> sql_error + conversation" where
  "update_metadata now NEW user1 user2 c =
     (case (if user1 = receiver_id NEW then int4_add (user1_unread_count c) 1
            else Inr (user1_unread_count c)) of
        Inl e \<Rightarrow> Inl e
      | Inr n1 \<Rightarrow>
          (case (if user2 = receiver_id NEW then int4_add (user2_unread_count c) 1
                 else Inr (user2_unread_count c)) of
             Inl e \<Rightarrow> Inl e
           | Inr n2 \<Rightarrow>
               Inr (c\<lparr>last_message_id := Some (m_id NEW), updated_at := now,
                       user1_unread_count := n1, user2_unread_count := n2\<rparr>)))"

text \<open>\<open>UPDATE conversations SET ... WHERE id = conv_id\<close>.\<close>

fun update_conversations ::
  "(conversation \<Rightarrow> sql_error + conversation) \<Rightarrow> uuid \<Rightarrow> conversation list
     \<Rightarrow> sql_error + conversation list" where
  "update_conversations f conv_id [] = Inr []"
| "update_conversations f conv_id (c # cs) =
     (case (if c_id c = conv_id then f c else Inr c) of
        Inl e \<Rightarrow> Inl e
      | Inr c' \<Rightarrow>
          (case update_conversations f conv_id cs of
             Inl e \<Rightarrow> Inl e
           | Inr cs' \<Rightarrow> Inr (c' # cs')))"

text \<open>
  The trigger function. \<open>NEW\<close> is the row about to be stored, defaults filled in; the
  result is the conversations table after the trigger and the row it returns.

  The constraint \<open>conversations_last_message_id_fkey\<close> refers \<open>last_message_id\<close> to
  \<open>messages(id)\<close>. It is checked when the \<open>UPDATE\<close> ends, for the rows it wrote, against
  the messages stored at that moment; the trigger runs before the insert, so the new
  message is not among them.
\<close>

definition set_message_conversation ::
  "timestamptz \<Rightarrow> uuid \<Rightarrow> messaging_db \<Rightarrow> message
     \<Rightarrow> sql_error + (conversation list \<times> message)" where
  "set_message_conversation now gen db NEW =
     (case canonical_pair (sender_id NEW) (receiver_id NEW) of
        (user1, user2) \<Rightarrow>
          (case find_or_create now gen user1 user2 (m_advertisement_id NEW) (conversations db) of
             Inl e \<Rightarrow> Inl e
           | Inr (cs1, conv_id) \<Rightarrow>
               (case update_conversations
                       (update_metadata now (NEW\<lparr>conversation_id := Some conv_id\<rparr>) user1 user2)
                       conv_id cs1 of
                  Inl e \<Rightarrow> Inl e
                | Inr cs2 \<Rightarrow>
                    if (\<exists>c \<in> set cs1. c_id c = conv_id)
                       \<and> m_id NEW \<notin> m_id ` set (messages db)
                    then Inl foreign_key_violation
                    else Inr (cs2, NEW\<lparr>conversation_id := Some conv_id\<rparr>))))"

text \<open>
  \<open>INSERT INTO messages\<close>: the \<open>BEFORE INSERT\<close> trigger runs, then the row it returned is
  stored under the primary key and the foreign key from \<open>conversation_id\<close> to
  \<open>conversations(id)\<close>. An error leaves the database as it was.
\<close>

definition insert_message ::
  "timestamptz \<Rightarrow> uuid \<Rightarrow> messaging_db \<Rightarrow> message \<Rightarrow> sql_error + (messaging_db \<times> message)" where
  "insert_message now gen db NEW =
     (case set_message_conversation now gen db NEW of
        Inl e \<Rightarrow> Inl e
      | Inr (cs, row) \<Rightarrow>
          if m_id row \<in> m_id ` set (messages db) then Inl unique_violation
          else if (case conversation_id row of None \<Rightarrow> False | Some i \<Rightarrow> i \<notin> c_id ` set cs)
          then Inl foreign_key_violation
          else Inr (\<lparr>conversations = cs, messages = messages db @ [row]\<rparr>, row))"

section \<open>Users, advertisements and the admin log\<close>

datatype user_role = role_user | role_vip | role_moderator | role_admin | role_Legend

definition user_role_of :: "string \<Rightarrow> user_role option" where
  "user_role_of s =
     (if s = ''user'' then Some role_user
      else if s = ''vip'' then Some role_vip
      else if s = ''moderator'' then Some role_moderator
      else if s = ''admin'' then Some role_admin
      else if s = ''Legend'' then Some role_Legend
      else None)"

record users_row =
  u_id :: uuid
  nickname :: string
  password_hash :: string
  role :: user_role
  is_banned :: bool
  u_created_at :: timestamptz

record advertisement =
  a_id :: uuid
  user_id :: "uuid option"
  category :: string
  subcategory :: string
  title :: string
  description :: string
  images :: "string list"
  discord_contact :: "string option"
  telegram_contact :: "string option"
  price :: "rat option"
  is_vip :: bool
  a_created_at :: timestamptz

datatype json = JString string | JUuid uuid

record admin_log =
  l_id :: uuid
  admin_id :: "uuid option"
  action :: string
  target_user_id :: "uuid option"
  details :: "(string \<times> json) list"
  l_created_at :: timestamptz

subsection \<open>The advertisements table and \<open>create_advertisement\<close>\<close>

definition sql_not :: "bool option \<Rightarrow> bool option" where
  "sql_not p = map_option Not p"

text \<open>
  \<open>CONSTRAINT check_at_least_one_contact\<close>. A \<open>CHECK\<close> rejects a row only when its
  condition is false.
\<close>

definition check_at_least_one_contact :: "advertisement \<Rightarrow> bool" where
  "check_at_least_one_contact a =
     (sql_or (sql_not (sql_is_null (discord_contact a)))
             (sql_not (sql_is_null (telegram_contact a))) \<noteq> Some False)"

text \<open>
  The three statements that write the table, whoever issues them: \<open>INSERT\<close> of a row,
  \<open>UPDATE ... WHERE id = adId\<close> with an arbitrary \<open>SET\<close> list \<open>f\<close>, and
  \<open>DELETE ... WHERE id = adId\<close>. The primary key and the \<open>CHECK\<close> are tested on
  every row written.
\<close>

definition insert_advertisement ::
  "advertisement \<Rightarrow> advertisement list \<Rightarrow> sql_error + advertisement list" where
  "insert_advertisement row ads =
     (if a_id row \<in> a_id ` set ads then Inl unique_violation
      else if \<not> check_at_least_one_contact row then Inl check_violation
      else Inr (ads @ [row]))"

definition update_advertisements ::
  "(advertisement \<Rightarrow> advertisement) \<Rightarrow> uuid \<Rightarrow> advertisement list
     \<Rightarrow> sql_error + advertisement list" where
  "update_advertisements f adId ads =
     (if \<exists>a \<in> set ads. a_id a = adId \<and> \<not> check_at_least_one_contact (f a)
      then Inl check_violation
      else if \<not> distinct (map a_id (map (\<lambda>a. if a_id a = adId then f a else a) ads))
      then Inl unique_violation
      else Inr (map (\<lambda>a. if a_id a = adId then f a else a) ads))"

definition delete_advertisements :: "uuid \<Rightarrow> advertisement list \<Rightarrow> advertisement list" where
  "delete_advertisements adId ads = filter (\<lambda>a. a_id a \<noteq> adId) ads"

definition create_advertisement ::
  "timestamptz \<Rightarrow> uuid \<Rightarrow> uuid option \<Rightarrow> string \<Rightarrow> string \<Rightarrow> string \<Rightarrow> string \<Rightarrow> string list
     \<Rightarrow> string option \<Rightarrow> string option \<Rightarrow> bool \<Rightarrow> rat option \<Rightarrow> advertisement list
     \<Rightarrow> sql_error + (advertisement list \<times> advertisement)" where
  "create_advertisement now gen p_user_id p_category p_subcategory p_title p_description
       p_images p_discord p_telegram p_is_vip p_price ads =
     (if sql_true (sql_and (sql_is_null p_discord) (sql_is_null p_telegram))
      then Inl (raise_exception ''At least one contact (Discord or Telegram) is required'')
      else
        (case insert_advertisement
                \<lparr>a_id = gen, user_id = p_user_id, category = p_category,
                 subcategory = p_subcategory, title = p_title, description = p_description,
                 images = p_images, discord_contact = p_discord,
                 telegram_contact = p_telegram, price = p_price, is_vip = p_is_vip,
                 a_created_at = now\<rparr> ads of
           Inl e \<Rightarrow> Inl e
         | Inr ads' \<Rightarrow>
             Inr (ads',
                  \<lparr>a_id = gen, user_id = p_user_id, category = p_category,
                   subcategory = p_subcategory, title = p_title, description = p_description,
                   images = p_images, discord_contact = p_discord,
                   telegram_contact = p_telegram, price = p_price, is_vip = p_is_vip,
                   a_created_at = now\<rparr>)))"

text \<open>The tables reachable from the empty one through these write paths.\<close>

inductive advertisements_reachable :: "advertisement list \<Rightarrow> bool" where
  ar_empty: "advertisements_reachable []"
| ar_create:
    "advertisements_reachable ads \<Longrightarrow>
     create_advertisement now gen p_user_id p_category p_subcategory p_title p_description
       p_images p_discord p_telegram p_is_vip p_price ads = Inr (ads', row) \<Longrightarrow>
     advertisements_reachable ads'"
| ar_insert:
    "advertisements_reachable ads \<Longrightarrow> insert_advertisement row ads = Inr ads' \<Longrightarrow>
     advertisements_reachable ads'"
| ar_update:
    "advertisements_reachable ads \<Longrightarrow> update_advertisements f adId ads = Inr ads' \<Longrightarrow>
     advertisements_reachable ads'"
| ar_delete:
    "advertisements_reachable ads \<Longrightarrow> advertisements_reachable (delete_advertisements adId ads)"

section \<open>The messaging modal\<close>

datatype effect = toast_success | toast_error | console_error

record modal_state =
  conversations_state :: "conversation list"
  selectedConversation :: "uuid option"

text \<open>
  \<open>fetchConversations\<close>: the conversations of the user, most recently updated first. The
  joined nickname and advertisement title only feed the display.
\<close>

definition fetchConversations :: "users_row option \<Rightarrow> messaging_db \<Rightarrow> modal_state \<Rightarrow> modal_state" where
  "fetchConversations user db st =
     (case user of
        None \<Rightarrow> st
      | Some u \<Rightarrow>
          st\<lparr>conversations_state :=
               rev (sort_key updated_at
                     (filter (\<lambda>c. user1_id c = u_id u \<or> user2_id c = u_id u) (conversations db)))\<rparr>)"

text \<open>
  \<open>markMessagesAsRead\<close>. The first update is on the messages table; the second one is
  issued only when the conversation is found in the list the modal holds, and the counter
  it resets is chosen from that list's copy of the row. Both updates are taken to reach
  the store; the function inspects neither result.
\<close>

definition markMessagesAsRead ::
  "users_row option \<Rightarrow> modal_state \<Rightarrow> uuid \<Rightarrow> messaging_db \<Rightarrow> messaging_db" where
  "markMessagesAsRead user st conversationId db =
     (case user of
        None \<Rightarrow> db
      | Some u \<Rightarrow>
          (case find (\<lambda>c. c_id c = conversationId) (conversations_state st) of
             None \<Rightarrow>
               db\<lparr>messages :=
                    map (\<lambda>m. if conversation_id m = Some conversationId
                                 \<and> receiver_id m = u_id u \<and> is_read m = False
                              then m\<lparr>is_read := True\<rparr> else m) (messages db)\<rparr>
           | Some conversation \<Rightarrow>
               db\<lparr>messages :=
                    map (\<lambda>m. if conversation_id m = Some conversationId
                                 \<and> receiver_id m = u_id u \<and> is_read m = False
                              then m\<lparr>is_read := True\<rparr> else m) (messages db),
                  conversations :=
                    map (\<lambda>c. if c_id c = conversationId
                              then (if user1_id conversation = u_id u
                                    then c\<lparr>user1_unread_count := 0\<rparr>
                                    else c\<lparr>user2_unread_count := 0\<rparr>)
                              else c) (conversations db)\<rparr>))"

text \<open>The greeting of \<open>startConversation\<close>, as the bytes of its UTF-8 encoding.\<close>

definition greeting :: string where
  "greeting = map char_of
     [208, 159, 209, 128, 208, 184, 208, 178, 209, 150, 209, 130, 33, 32, 208, 156, 208,
      181, 208, 189, 208, 181, 32, 209, 134, 209, 150, 208, 186, 208, 176, 208, 178, 208,
      184, 209, 130, 209, 140, 32, 208, 178, 208, 176, 209, 136, 208, 181, 32, 208, 190,
      208, 179, 208, 190, 208, 187, 208, 190, 209, 136, 208, 181, 208, 189, 208, 189, 209,
      143, 46 :: nat]"

text \<open>
  \<open>startConversation\<close>. \<open>gen_m\<close> and \<open>gen_c\<close> are the uuids the database generates for the
  message and, if one is created, for the conversation.
\<close>

definition startConversation ::
  "users_row option \<Rightarrow> timestamptz \<Rightarrow> uuid \<Rightarrow> uuid \<Rightarrow> uuid \<Rightarrow> uuid option \<Rightarrow> modal_state
     \<Rightarrow> messaging_db \<Rightarrow> messaging_db \<times> modal_state \<times> effect list" where
  "startConversation user now gen_m gen_c recipientId advertisementId st db =
     (case user of
        None \<Rightarrow> (db, st, [])
      | Some u \<Rightarrow>
          (case find (\<lambda>conv. (user1_id conv = u_id u \<and> user2_id conv = recipientId)
                            \<or> (user2_id conv = u_id u \<and> user1_id conv = recipientId))
                     (conversations_state st) of
             Some existingConv \<Rightarrow> (db, st\<lparr>selectedConversation := Some (c_id existingConv)\<rparr>, [])
           | None \<Rightarrow>
               (case insert_message now gen_c db
                       \<lparr>m_id = gen_m, sender_id = u_id u, receiver_id = recipientId,
                        conversation_id = None, m_advertisement_id = advertisementId,
                        content = greeting, is_read = False, m_created_at = now\<rparr> of
                  Inl e \<Rightarrow> (db, st, [toast_error])
                | Inr (db', data) \<Rightarrow>
                    (case conversation_id data of
                       Some cid \<Rightarrow>
                         (db', (fetchConversations (Some u) db' st)\<lparr>selectedConversation := Some cid\<rparr>, [])
                     | None \<Rightarrow> (db', fetchConversations (Some u) db' st, [])))))"

text \<open>
  The states of the messaging tables are those that the write paths of the sources produce
  from the empty tables: message inserts, which run the trigger, and the read-state reset.
\<close>

inductive messaging_reachable :: "messaging_db \<Rightarrow> bool" where
  mr_empty: "messaging_reachable empty_db"
| mr_insert:
    "messaging_reachable db \<Longrightarrow> insert_message now gen db NEW = Inr (db', row) \<Longrightarrow>
     messaging_reachable db'"
| mr_read:
    "messaging_reachable db \<Longrightarrow> messaging_reachable (markMessagesAsRead user st conversationId db)"

section \<open>The admin panel\<close>

record admin_db =
  users :: "users_row list"
  advertisements :: "advertisement list"
  admin_logs :: "admin_log list"

text \<open>
  What the panel holds of an advertisement: the row and, from the join with \<open>users\<close>, the
  nickname of its author.
\<close>

record panel_ad =
  ad_row :: advertisement
  ad_author :: "string option"

record panel_state =
  users_state :: "users_row list"
  advertisements_state :: "panel_ad list"
  logs :: "admin_log list"

text \<open>
  Modelled from the spec: \<open>hasPermission\<close> is imported from \<open>@/lib/auth\<close>, which is not
  among the sources. The spec says that the roles listed in the call qualify for entry, so
  the function tests whether the user's role is one of the roles it is given.
\<close>

definition hasPermission :: "users_row \<Rightarrow> user_role list \<Rightarrow> bool" where
  "hasPermission u roles = (role u \<in> set roles)"

text \<open>
  The guard at the head of the mount effect and of the render: without a user or without
  the permission, the panel navigates away and shows the access-denied page.
\<close>

definition panel_access :: "users_row option \<Rightarrow> bool" where
  "panel_access user =
     (\<not> (user = None \<or> \<not> (case user of None \<Rightarrow> False
                              | Some u \<Rightarrow> hasPermission u [role_admin, role_moderator])))"

text \<open>
  \<open>fetchData\<close>: users and advertisements newest first; the last 50 log entries, and those
  only for an admin. The statistics it derives are display only.
\<close>

definition fetchData :: "users_row option \<Rightarrow> admin_db \<Rightarrow> panel_state \<Rightarrow> panel_state" where
  "fetchData user db st =
     st\<lparr>users_state := rev (sort_key u_created_at (users db)),
        advertisements_state :=
          map (\<lambda>a. \<lparr>ad_row = a,
                     ad_author =
                       (case user_id a of
                          None \<Rightarrow> None
                        | Some uid \<Rightarrow> map_option nickname (find (\<lambda>u. u_id u = uid) (users db)))\<rparr>)
              (rev (sort_key a_created_at (advertisements db))),
        logs :=
          (if map_option role user = Some role_admin
           then take 50 (rev (sort_key l_created_at (admin_logs db)))
           else logs st)\<rparr>"

text \<open>The tabs of the panel; the log tab and its content are rendered for an admin only.\<close>

datatype tab = tab_stats | tab_users | tab_ads | tab_logs

definition tabs :: "users_row \<Rightarrow> tab list" where
  "tabs user =
     [tab_stats, tab_users, tab_ads] @ (if role user = role_admin then [tab_logs] else [])"

text \<open>
  How a call of the store can go wrong for reasons outside the data (network, policy): the
  client library either returns an error in its result or the awaited promise rejects.
\<close>

datatype fault = no_fault | returns_error | throws

text \<open>
  \<open>logAction\<close>. The result of the insert is not inspected, so an error it returns is
  dropped; a rejected promise is caught and reported on the console. The table rejects a
  taken id and an \<open>admin_id\<close> or \<open>target_user_id\<close> that is not the id of a user.
\<close>

definition logAction ::
  "users_row option \<Rightarrow> fault \<Rightarrow> uuid \<Rightarrow> timestamptz \<Rightarrow> string \<Rightarrow> uuid option
     \<Rightarrow> (string \<times> json) list \<Rightarrow> admin_db \<Rightarrow> admin_db \<times> effect list" where
  "logAction user log_fault gen now act targetUserId dets db =
     (case log_fault of
        throws \<Rightarrow> (db, [console_error])
      | returns_error \<Rightarrow> (db, [])
      | no_fault \<Rightarrow>
          (if gen \<in> l_id ` set (admin_logs db)
              \<or> (case map_option u_id user of
                    None \<Rightarrow> False | Some i \<Rightarrow> i \<notin> u_id ` set (users db))
              \<or> (case targetUserId of
                    None \<Rightarrow> False | Some i \<Rightarrow> i \<notin> u_id ` set (users db))
           then (db, [])
           else (db\<lparr>admin_logs := admin_logs db @
                       [\<lparr>l_id = gen, admin_id = map_option u_id user, action = act,
                         target_user_id = targetUserId, details = dets,
                         l_created_at = now\<rparr>]\<rparr>, [])))"

text \<open>The object \<open>updateData\<close>: the columns it sets.\<close>

record updateData =
  set_is_banned :: "bool option"
  set_role :: "string option"

text \<open>
  The policies \<open>USING (auth.uid()::text = id::text)\<close> on \<open>users\<close> and
  \<open>USING (auth.uid()::text = user_id::text)\<close> on \<open>advertisements\<close>: a row is admitted when
  the comparison of the caller with the column is true.
\<close>

definition policy_admits :: "uuid option \<Rightarrow> uuid option \<Rightarrow> bool" where
  "policy_admits caller col = sql_true (sql_eq caller col)"

text \<open>
  \<open>UPDATE users SET ... WHERE id = targetUserId\<close>, issued by \<open>caller\<close>. The only
  update policy on the table is "Users can update own profile", so a row of another user
  is not updated. A role must be a label of the enum. The id is not among the columns
  set, so the \<open>WITH CHECK\<close> of the policy holds for every row written.
\<close>

definition update_users ::
  "uuid option \<Rightarrow> fault \<Rightarrow> updateData \<Rightarrow> uuid \<Rightarrow> users_row list
     \<Rightarrow> sql_error option + users_row list" where
  "update_users caller mutation_fault upd targetUserId us =
     (if mutation_fault \<noteq> no_fault then Inl None
      else
        (case set_role upd of
           None \<Rightarrow>
             Inr (map (\<lambda>u. if u_id u = targetUserId \<and> policy_admits caller (Some (u_id u))
                            then u\<lparr>is_banned := (case set_is_banned upd of
                                                   None \<Rightarrow> is_banned u | Some b \<Rightarrow> b)\<rparr>
                            else u) us)
         | Some r \<Rightarrow>
             (case user_role_of r of
                None \<Rightarrow> Inl (Some invalid_text_representation)
              | Some r' \<Rightarrow>
                  Inr (map (\<lambda>u. if u_id u = targetUserId \<and> policy_admits caller (Some (u_id u))
                                 then u\<lparr>is_banned := (case set_is_banned upd of
                                                        None \<Rightarrow> is_banned u | Some b \<Rightarrow> b),
                                        role := r'\<rparr>
                                 else u) us))))"

text \<open>
  \<open>UPDATE advertisements SET ... WHERE id = adId\<close> and \<open>DELETE FROM advertisements WHERE
  id = adId\<close>, issued by \<open>caller\<close>: the policies "Users can update own advertisements"
  and "Users can delete own advertisements" admit the rows the caller owns; an updated row
  must still be the caller's (\<open>WITH CHECK\<close>), satisfy the \<open>CHECK\<close> and keep ids unique.
\<close>

definition update_advertisements_as ::
  "uuid option \<Rightarrow> (advertisement \<Rightarrow> advertisement) \<Rightarrow> uuid \<Rightarrow> advertisement list
     \<Rightarrow> sql_error + advertisement list" where
  "update_advertisements_as caller f adId ads =
     (if \<exists>a \<in> set ads. a_id a = adId \<and> policy_admits caller (user_id a)
                        \<and> \<not> policy_admits caller (user_id (f a))
      then Inl insufficient_privilege
      else if \<exists>a \<in> set ads. a_id a = adId \<and> policy_admits caller (user_id a)
                             \<and> \<not> check_at_least_one_contact (f a)
      then Inl check_violation
      else if \<not> distinct (map a_id (map (\<lambda>a. if a_id a = adId \<and> policy_admits caller (user_id a)
                                               then f a else a) ads))
      then Inl unique_violation
      else Inr (map (\<lambda>a. if a_id a = adId \<and> policy_admits caller (user_id a)
                          then f a else a) ads))"

definition delete_advertisements_as ::
  "uuid option \<Rightarrow> uuid \<Rightarrow> advertisement list \<Rightarrow> advertisement list" where
  "delete_advertisements_as caller adId ads =
     filter (\<lambda>a. \<not> (a_id a = adId \<and> policy_admits caller (user_id a))) ads"

text \<open>A string of JavaScript is truthy when it is defined and not empty.\<close>

definition truthy :: "string option \<Rightarrow> bool" where
  "truthy s = (case s of None \<Rightarrow> False | Some v \<Rightarrow> v \<noteq> [])"

definition action_label :: "string \<Rightarrow> string option \<Rightarrow> string" where
  "action_label act newRole =
     act @ (case newRole of None \<Rightarrow> [] | Some r \<Rightarrow> if r \<noteq> [] then ''_to_'' @ r else [])"

text \<open>The detail payload of a user action; a key whose value is undefined is not sent.\<close>

definition user_action_details ::
  "string \<Rightarrow> string option \<Rightarrow> uuid \<Rightarrow> users_row list \<Rightarrow> (string \<times> json) list" where
  "user_action_details act newRole targetUserId us =
     [(''action'', JString act)]
     @ (case newRole of None \<Rightarrow> [] | Some r \<Rightarrow> [(''newRole'', JString r)])
     @ (case find (\<lambda>u. u_id u = targetUserId) us of
          None \<Rightarrow> [] | Some u \<Rightarrow> [(''target_nickname'', JString (nickname u))])"

text \<open>The object \<open>updateData\<close> that \<open>handleUserAction\<close> builds from its arguments.\<close>

definition build_updateData :: "string \<Rightarrow> string option \<Rightarrow> updateData" where
  "build_updateData act newRole =
     (if act = ''ban'' then \<lparr>set_is_banned = Some True, set_role = None\<rparr>
      else if act = ''unban'' then \<lparr>set_is_banned = Some False, set_role = None\<rparr>
      else if act = ''role'' \<and> truthy newRole
        then \<lparr>set_is_banned = None, set_role = newRole\<rparr>
      else \<lparr>set_is_banned = None, set_role = None\<rparr>)"

definition handleUserAction ::
  "users_row option \<Rightarrow> fault \<Rightarrow> fault \<Rightarrow> uuid \<Rightarrow> timestamptz \<Rightarrow> uuid \<Rightarrow> string \<Rightarrow> string option
     \<Rightarrow> panel_state \<Rightarrow> admin_db \<Rightarrow> admin_db \<times> panel_state \<times> effect list" where
  "handleUserAction user mutation_fault log_fault gen now targetUserId act newRole st db =
     (case update_users (map_option u_id user) mutation_fault (build_updateData act newRole)
             targetUserId (users db) of
        Inl e \<Rightarrow> (db, st, [toast_error])
      | Inr us \<Rightarrow>
          (case logAction user log_fault gen now (action_label act newRole) (Some targetUserId)
                  (user_action_details act newRole targetUserId (users_state st))
                  (db\<lparr>users := us\<rparr>) of
             (db', diag) \<Rightarrow> (db', fetchData user db' st, diag @ [toast_success])))"

definition ad_details :: "uuid \<Rightarrow> panel_ad option \<Rightarrow> (string \<times> json) list" where
  "ad_details adId ad =
     [(''advertisement_id'', JUuid adId)]
     @ (case ad of None \<Rightarrow> [] | Some a \<Rightarrow> [(''advertisement_title'', JString (title (ad_row a)))])
     @ (case ad of
          None \<Rightarrow> []
        | Some a \<Rightarrow> (case ad_author a of
                       None \<Rightarrow> [] | Some n \<Rightarrow> [(''advertisement_author'', JString n)]))"

text \<open>\<open>handleDeleteAd\<close>; \<open>confirmed\<close> is the answer to the confirmation dialog.\<close>

definition handleDeleteAd ::
  "users_row option \<Rightarrow> bool \<Rightarrow> fault \<Rightarrow> fault \<Rightarrow> uuid \<Rightarrow> timestamptz \<Rightarrow> uuid
     \<Rightarrow> panel_state \<Rightarrow> admin_db \<Rightarrow> admin_db \<times> panel_state \<times> effect list" where
  "handleDeleteAd user confirmed mutation_fault log_fault gen now adId st db =
     (if \<not> confirmed then (db, st, [])
      else if mutation_fault \<noteq> no_fault then (db, st, [toast_error])
      else
        (case logAction user log_fault gen now ''delete_advertisement''
                (case find (\<lambda>ad. a_id (ad_row ad) = adId) (advertisements_state st) of
                   None \<Rightarrow> None | Some ad \<Rightarrow> user_id (ad_row ad))
                (ad_details adId (find (\<lambda>ad. a_id (ad_row ad) = adId) (advertisements_state st)))
                (db\<lparr>advertisements :=
                       delete_advertisements_as (map_option u_id user) adId (advertisements db)\<rparr>) of
           (db', diag) \<Rightarrow> (db', fetchData user db' st, diag @ [toast_success])))"

definition handlePromoteAd ::
  "users_row option \<Rightarrow> fault \<Rightarrow> fault \<Rightarrow> uuid \<Rightarrow> timestamptz \<Rightarrow> uuid \<Rightarrow> bool
     \<Rightarrow> panel_state \<Rightarrow> admin_db \<Rightarrow> admin_db \<times> panel_state \<times> effect list" where
  "handlePromoteAd user mutation_fault log_fault gen now adId isVip st db =
     (if mutation_fault \<noteq> no_fault then (db, st, [toast_error])
      else
        (case update_advertisements_as (map_option u_id user) (\<lambda>a. a\<lparr>is_vip := \<not> isVip\<rparr>) adId
                (advertisements db) of
           Inl e \<Rightarrow> (db, st, [toast_error])
         | Inr ads \<Rightarrow>
             (case logAction user log_fault gen now
                     (if isVip then ''demote_advertisement'' else ''promote_advertisement'')
                     (case find (\<lambda>ad. a_id (ad_row ad) = adId) (advertisements_state st) of
                        None \<Rightarrow> None | Some ad \<Rightarrow> user_id (ad_row ad))
                     (ad_details adId
                        (find (\<lambda>ad. a_id (ad_row ad) = adId) (advertisements_state st)))
                     (db\<lparr>advertisements := ads\<rparr>) of
                (db', diag) \<Rightarrow> (db', fetchData user db' st, diag @ [toast_success]))))"

text \<open>
  The controls of a row of the users tab. The two role buttons are rendered for an admin and
  a target that the list does not show as admin, each disabled when the target already has
  that role; the ban button is rendered for a target that the list does not show as admin.
\<close>

datatype user_control = make_vip | make_moderator | toggle_ban

definition user_controls :: "users_row \<Rightarrow> users_row \<Rightarrow> user_control list" where
  "user_controls user targetUser =
     (if role user = role_admin \<and> role targetUser \<noteq> role_admin
      then (if role targetUser = role_vip then [] else [make_vip])
           @ (if role targetUser = role_moderator then [] else [make_moderator])
      else [])
     @ (if role targetUser \<noteq> role_admin then [toggle_ban] else [])"

text \<open>
  A click in the users tab: the panel is rendered for a user who passes the guard, a row
  for each entry of the list it holds, and the handler runs with the id of that entry.
\<close>

definition click_user_control ::
  "users_row option \<Rightarrow> fault \<Rightarrow> fault \<Rightarrow> uuid \<Rightarrow> timestamptz \<Rightarrow> users_row \<Rightarrow> user_control
     \<Rightarrow> panel_state \<Rightarrow> admin_db \<Rightarrow> admin_db \<times> panel_state \<times> effect list" where
  "click_user_control user mutation_fault log_fault gen now targetUser ctl st db =
     (case user of
        None \<Rightarrow> (db, st, [])
      | Some u \<Rightarrow>
          (if panel_access user \<and> targetUser \<in> set (users_state st)
              \<and> ctl \<in> set (user_controls u targetUser)
           then (case ctl of
                   make_vip \<Rightarrow>
                     handleUserAction user mutation_fault log_fault gen now
                       (u_id targetUser) ''role'' (Some ''vip'') st db
                 | make_moderator \<Rightarrow>
                     handleUserAction user mutation_fault log_fault gen now
                       (u_id targetUser) ''role'' (Some ''moderator'') st db
                 | toggle_ban \<Rightarrow>
                     handleUserAction user mutation_fault log_fault gen now
                       (u_id targetUser) (if is_banned targetUser then ''unban'' else ''ban'')
                       None st db)
           else (db, st, [])))"

section \<open>Example data\<close>

text \<open>
  Two users, 1 and 2, and a message each way without an advertisement. The two states
  satisfy every constraint of the tables: one conversation of the pair, holding the first
  message, then both.
\<close>

definition example_message :: message where
  "example_message =
     \<lparr>m_id = 1, sender_id = 2, receiver_id = 1, conversation_id = None,
      m_advertisement_id = None, content = ''hello'', is_read = False, m_created_at = 5\<rparr>"




text \<open>User 1 as the signed-in user, with a modal that holds no conversation.\<close>

definition example_user1 :: users_row where
  "example_user1 =
     \<lparr>u_id = 1, nickname = ''one'', password_hash = ''h'', role = role_user,
      is_banned = False, u_created_at = 1\<rparr>"

definition example_modal :: modal_state where
  "example_modal = \<lparr>conversations_state = [], selectedConversation = None\<rparr>"

text \<open>
  An admin, a moderator and a plain user, the panel state that lists them, and one
  advertisement with a Telegram contact only.
\<close>

definition example_admin :: users_row where
  "example_admin =
     \<lparr>u_id = 5, nickname = ''root'', password_hash = ''h'', role = role_admin,
      is_banned = False, u_created_at = 3\<rparr>"

definition example_moderator :: users_row where
  "example_moderator =
     \<lparr>u_id = 6, nickname = ''mod'', password_hash = ''h'', role = role_moderator,
      is_banned = False, u_created_at = 2\<rparr>"

definition example_member :: users_row where
  "example_member =
     \<lparr>u_id = 8, nickname = ''member'', password_hash = ''h'', role = role_user,
      is_banned = False, u_created_at = 1\<rparr>"

definition example_admin_db :: admin_db where
  "example_admin_db =
     \<lparr>users = [example_admin, example_moderator, example_member],
      advertisements = [], admin_logs = []\<rparr>"

definition example_panel :: panel_state where
  "example_panel =
     \<lparr>users_state = [example_admin, example_moderator, example_member],
      advertisements_state = [], logs = []\<rparr>"

definition example_chair :: advertisement where
  "example_chair =
     \<lparr>a_id = 20, user_id = Some 8, category = ''home'', subcategory = ''furniture'',
      title = ''Chair'', description = ''A chair'', images = [], discord_contact = None,
      telegram_contact = Some ''@member'', price = None, is_vip = False, a_created_at = 4\<rparr>"


definition example_lamp :: advertisement where
  "example_lamp =
     \<lparr>a_id = 22, user_id = Some 6, category = ''home'', subcategory = ''light'',
      title = ''Lamp'', description = ''A lamp'', images = [], discord_contact = Some ''mod#1'',
      telegram_contact = None, price = None, is_vip = False, a_created_at = 4\<rparr>"

definition example_shop_db :: admin_db where
  "example_shop_db =
     \<lparr>users = [example_admin, example_moderator, example_member],
      advertisements = [example_lamp], admin_logs = []\<rparr>"

definition example_shop_panel :: panel_state where
  "example_shop_panel =
     \<lparr>users_state = [example_admin, example_moderator, example_member],
      advertisements_state = [\<lparr>ad_row = example_lamp, ad_author = Some ''mod''\<rparr>],
      logs = []\<rparr>"



section \<open>Properties of the trigger\<close>

text \<open>
  The lookup in terms of equality of options, find-or-create in closed form, and the trigger
  unfolded on the ordered pair. The reference that the metadata update writes is checked
  against the stored messages, so the trigger fails for every message whose id is new, and
  the insert fails for every message.
\<close>

lemma conversation_matches_iff:
  "conversation_matches user1 user2 adv c \<longleftrightarrow>
     user1_id c = user1 \<and> user2_id c = user2 \<and> c_advertisement_id c = adv"
  by (cases "c_advertisement_id c"; cases adv)
     (auto simp: conversation_matches_def sql_true_def sql_and_def sql_or_def sql_eq_def
                 sql_is_null_def)

lemma unique_conflict_matches:
  "unique_conflict user1 user2 adv c \<Longrightarrow> conversation_matches user1 user2 adv c"
  by (cases "c_advertisement_id c"; cases adv)
     (auto simp: conversation_matches_def unique_conflict_def sql_true_def sql_and_def
                 sql_or_def sql_eq_def sql_is_null_def split: if_splits)

lemma canonical_pair_min_max: "canonical_pair a b = (min a b, max a b)"
  by (simp add: canonical_pair_def min_def max_def)

lemma select_conversation_find:
  "select_conversation user1 user2 adv cs =
     map_option c_id
       (find (\<lambda>c. user1_id c = user1 \<and> user2_id c = user2 \<and> c_advertisement_id c = adv) cs)"
proof -
  have "conversation_matches user1 user2 adv =
        (\<lambda>c. user1_id c = user1 \<and> user2_id c = user2 \<and> c_advertisement_id c = adv)"
    by (rule ext) (rule conversation_matches_iff)
  then show ?thesis by (simp only: select_conversation_def)
qed

lemma no_conflict_without_match:
  "find (\<lambda>c. user1_id c = user1 \<and> user2_id c = user2 \<and> c_advertisement_id c = adv) cs = None
   \<Longrightarrow> \<not> (\<exists>c \<in> set cs. unique_conflict user1 user2 adv c)"
  by (auto simp: find_None_iff conversation_matches_iff dest!: unique_conflict_matches)

lemma find_or_create_eq:
  "find_or_create now gen user1 user2 adv cs =
     (case find (\<lambda>c. user1_id c = user1 \<and> user2_id c = user2 \<and> c_advertisement_id c = adv) cs of
        Some C \<Rightarrow> Inr (cs, c_id C)
      | None \<Rightarrow>
          if gen \<in> c_id ` set cs then Inl unique_violation
          else Inr (cs @ [\<lparr>c_id = gen, user1_id = user1, user2_id = user2,
                            c_advertisement_id = adv, last_message_id = None,
                            user1_unread_count = 0, user2_unread_count = 0,
                            c_created_at = now, updated_at = now\<rparr>], gen))"
proof (cases "find (\<lambda>c. user1_id c = user1 \<and> user2_id c = user2 \<and> c_advertisement_id c = adv) cs")
  case None
  from no_conflict_without_match [OF None] None show ?thesis
    by (simp add: find_or_create_def select_conversation_find insert_conversation_def)
next
  case (Some C)
  then show ?thesis by (simp add: find_or_create_def select_conversation_find)
qed

lemma find_or_create_row_exists:
  assumes "find_or_create now gen user1 user2 adv cs = Inr (cs1, conv_id)"
  shows "\<exists>c \<in> set cs1. c_id c = conv_id"
proof (cases "find (\<lambda>c. user1_id c = user1 \<and> user2_id c = user2 \<and> c_advertisement_id c = adv) cs")
  case None
  with assms show ?thesis by (auto simp: find_or_create_eq split: if_splits)
next
  case (Some C)
  then have "C \<in> set cs" by (auto simp: find_Some_iff)
  with Some assms show ?thesis by (auto simp: find_or_create_eq)
qed

lemma update_metadata_ignores_link:
  "update_metadata now (NEW\<lparr>conversation_id := x\<rparr>) user1 user2 = update_metadata now NEW user1 user2"
  by (rule ext) (simp add: update_metadata_def cong: sum.case_cong)

lemma set_message_conversation_unfold:
  "set_message_conversation now gen db NEW =
     (case find_or_create now gen (min (sender_id NEW) (receiver_id NEW))
             (max (sender_id NEW) (receiver_id NEW)) (m_advertisement_id NEW) (conversations db) of
        Inl e \<Rightarrow> Inl e
      | Inr p \<Rightarrow>
          (case update_conversations
                  (update_metadata now NEW (min (sender_id NEW) (receiver_id NEW))
                     (max (sender_id NEW) (receiver_id NEW)))
                  (snd p) (fst p) of
             Inl e \<Rightarrow> Inl e
           | Inr cs2 \<Rightarrow>
               if m_id NEW \<in> m_id ` set (messages db)
               then Inr (cs2, NEW\<lparr>conversation_id := Some (snd p)\<rparr>)
               else Inl foreign_key_violation))"
proof (cases "find_or_create now gen (min (sender_id NEW) (receiver_id NEW))
             (max (sender_id NEW) (receiver_id NEW)) (m_advertisement_id NEW) (conversations db)")
  case (Inl e)
  then show ?thesis
    by (simp add: set_message_conversation_def canonical_pair_min_max)
next
  case (Inr p)
  obtain cs1 conv_id where p: "p = (cs1, conv_id)" by (cases p)
  from Inr p find_or_create_row_exists have ex: "\<exists>c \<in> set cs1. c_id c = conv_id" by blast
  show ?thesis
    using Inr p ex
    by (simp add: set_message_conversation_def canonical_pair_min_max
          update_metadata_ignores_link split: sum.splits)
qed

lemma trigger_fresh_id_fails:
  assumes "m_id NEW \<notin> m_id ` set (messages db)"
  shows "\<exists>e. set_message_conversation now gen db NEW = Inl e"
  using assms by (simp add: set_message_conversation_unfold split: sum.splits)

lemma trigger_returns_row:
  assumes "set_message_conversation now gen db NEW = Inr (cs2, row)"
  shows "m_id NEW \<in> m_id ` set (messages db) \<and> m_id row = m_id NEW \<and> conversation_id row \<noteq> None"
  using assms by (auto simp: set_message_conversation_unfold split: sum.splits if_splits)

lemma insert_message_fails: "\<exists>e. insert_message now gen db NEW = Inl e"
proof (cases "set_message_conversation now gen db NEW")
  case (Inl e)
  then show ?thesis by (simp add: insert_message_def)
next
  case (Inr p)
  obtain cs2 row where p: "p = (cs2, row)" by (cases p)
  from Inr p trigger_returns_row have "m_id row \<in> m_id ` set (messages db)" by metis
  with Inr p show ?thesis by (simp add: insert_message_def)
qed



lemma markMessagesAsRead_empty: "markMessagesAsRead user st conversationId empty_db = empty_db"
  by (simp add: markMessagesAsRead_def empty_db_def split: option.splits)

lemma messaging_reachable_empty: "messaging_reachable db \<Longrightarrow> db = empty_db"
proof (induction rule: messaging_reachable.induct)
  case mr_empty
  show ?case by simp
next
  case (mr_insert db now gen NEW db' row)
  from insert_message_fails [of now gen db NEW] mr_insert.hyps(2) show ?case by auto
next
  case (mr_read db user st conversationId)
  then show ?case by (simp add: markMessagesAsRead_empty)
qed


section \<open>Properties of the advertisements table\<close>

lemma check_at_least_one_contact_iff:
  "check_at_least_one_contact a \<longleftrightarrow> discord_contact a \<noteq> None \<or> telegram_contact a \<noteq> None"
  by (auto simp: check_at_least_one_contact_def sql_or_def sql_not_def sql_is_null_def)

lemma insert_advertisement_Inr:
  "insert_advertisement row ads = Inr ads' \<Longrightarrow>
   check_at_least_one_contact row \<and> ads' = ads @ [row]"
  by (auto simp: insert_advertisement_def split: if_splits)

lemma create_advertisement_Inr:
  "create_advertisement now gen p_user_id p_category p_subcategory p_title p_description
       p_images p_discord p_telegram p_is_vip p_price ads = Inr (ads', row) \<Longrightarrow>
   check_at_least_one_contact row \<and> ads' = ads @ [row]"
  by (auto simp: create_advertisement_def split: if_splits sum.splits
           dest: insert_advertisement_Inr)

lemma update_advertisements_Inr:
  "update_advertisements f adId ads = Inr ads' \<Longrightarrow>
   \<forall>a \<in> set ads. check_at_least_one_contact a \<Longrightarrow>
   \<forall>a \<in> set ads'. check_at_least_one_contact a"
  by (auto simp: update_advertisements_def split: if_splits)

lemma advertisements_reachable_checked:
  "advertisements_reachable ads \<Longrightarrow> \<forall>a \<in> set ads. check_at_least_one_contact a"
proof (induction rule: advertisements_reachable.induct)
  case ar_empty
  show ?case by simp
next
  case (ar_create ads now gen p_user_id p_category p_subcategory p_title p_description
      p_images p_discord p_telegram p_is_vip p_price ads' row)
  from create_advertisement_Inr [OF ar_create.hyps(2)] ar_create.IH
  show ?case by simp
next
  case (ar_insert ads row ads')
  from insert_advertisement_Inr [OF ar_insert.hyps(2)] ar_insert.IH
  show ?case by simp
next
  case (ar_update ads f adId ads')
  from ar_update.hyps(2) ar_update.IH show ?case by (rule update_advertisements_Inr)
next
  case (ar_delete ads adId)
  then show ?case by (simp add: delete_advertisements_def)
qed

lemma example_chair_created:
  "create_advertisement 4 20 (Some 8) ''home'' ''furniture'' ''Chair'' ''A chair'' []
      None (Some ''@member'') False None [] = Inr ([example_chair], example_chair)"
  by (simp add: create_advertisement_def insert_advertisement_def
        check_at_least_one_contact_def sql_true_def sql_and_def sql_or_def sql_not_def
        sql_is_null_def example_chair_def)

lemma example_chair_reachable: "advertisements_reachable [example_chair]"
  by (rule ar_create [OF ar_empty example_chair_created])


section \<open>Properties of the admin panel\<close>

text \<open>
  What the handlers change in the \<open>users\<close> table, and the two outcomes of \<open>logAction\<close>.
\<close>

lemma logAction_users: "users (fst (logAction user lf gen now act tgt dets db)) = users db"
  by (simp add: logAction_def split: fault.splits)

lemma logAction_advertisements:
  "advertisements (fst (logAction user lf gen now act tgt dets db)) = advertisements db"
  by (simp add: logAction_def split: fault.splits)





lemma update_users_role:
  "update_users caller mf upd tid us = Inr us' \<Longrightarrow> set_role upd = None \<Longrightarrow>
   map role us' = map role us"
  by (auto simp: update_users_def split: if_splits option.splits)

lemma handleUserAction_users:
  "users (fst (handleUserAction user mf lf gen now tid act newRole st db)) =
     (case update_users (map_option u_id user) mf (build_updateData act newRole) tid (users db) of
        Inl e \<Rightarrow> users db
      | Inr us \<Rightarrow> us)"
proof (cases "update_users (map_option u_id user) mf (build_updateData act newRole) tid (users db)")
  case (Inl e)
  then show ?thesis by (simp add: handleUserAction_def)
next
  case (Inr us)
  have "users (fst (logAction user lf gen now (action_label act newRole) (Some tid)
                  (user_action_details act newRole tid (users_state st))
                  (db\<lparr>users := us\<rparr>))) = us"
    by (simp add: logAction_users)
  with Inr show ?thesis by (simp add: handleUserAction_def split_beta)
qed




lemma handleUserAction_ban_roles:
  assumes "act = ''ban'' \<or> act = ''unban''"
  shows "map role (users (fst (handleUserAction user mf lf gen now tid act newRole st db))) =
   map role (users db)"
proof (cases "update_users (map_option u_id user) mf (build_updateData act newRole) tid (users db)")
  case (Inl e)
  then show ?thesis by (simp add: handleUserAction_users)
next
  case (Inr us)
  from assms have "set_role (build_updateData act newRole) = None"
    by (auto simp: build_updateData_def)
  with update_users_role [OF Inr] Inr show ?thesis by (simp add: handleUserAction_users)
qed





lemma logAction_appended:
  "gen \<notin> l_id ` set (admin_logs db) \<Longrightarrow>
   (case map_option u_id user of None \<Rightarrow> True | Some i \<Rightarrow> i \<in> u_id ` set (users db)) \<Longrightarrow>
   (case tgt of None \<Rightarrow> True | Some i \<Rightarrow> i \<in> u_id ` set (users db)) \<Longrightarrow>
   logAction user no_fault gen now act tgt dets db =
     (db\<lparr>admin_logs := admin_logs db @
           [\<lparr>l_id = gen, admin_id = map_option u_id user, action = act,
             target_user_id = tgt, details = dets, l_created_at = now\<rparr>]\<rparr>, [])"
  by (auto simp: logAction_def split: option.splits)

lemma logAction_failed:
  "log_fault \<noteq> no_fault \<Longrightarrow>
   logAction user log_fault gen now act tgt dets db =
     (db, if log_fault = throws then [console_error] else [])"
  by (cases log_fault) (auto simp: logAction_def)

lemma example_lamp_promoted:
  "update_advertisements_as (map_option u_id (Some example_moderator))
      (\<lambda>a. a\<lparr>is_vip := \<not> False\<rparr>) 22 (advertisements example_shop_db) =
     Inr [example_lamp\<lparr>is_vip := True\<rparr>]"
  by (simp add: update_advertisements_as_def policy_admits_def sql_true_def sql_eq_def
        check_at_least_one_contact_def sql_or_def sql_not_def sql_is_null_def
        example_shop_db_def example_lamp_def example_moderator_def)


section \<open>Messaging: conversations and counters\<close>

text \<open>
  Claim C1. No insert into \<open>messages\<close> succeeds, whatever the tables hold and whatever the
  row is: the trigger's \<open>UPDATE\<close> sets \<open>last_message_id\<close> to the id of a message that is not
  stored yet, which the foreign key to \<open>messages(id)\<close> rejects, and when a message with that
  id is stored the primary key rejects the row. The tables reachable through message inserts
  and read resets therefore stay empty: no message is ever resolved to a conversation, and
  no conversation row exists.
\<close>

theorem every_message_insert_is_rejected:
  "(\<exists>e. insert_message now gen db NEW = Inl e)
   \<and> (messaging_reachable db \<longrightarrow> conversations db = [] \<and> messages db = [])"
proof (intro conjI impI)
  show "\<exists>e. insert_message now gen db NEW = Inl e" by (rule insert_message_fails)
next
  assume "messaging_reachable db"
  then have "db = empty_db" by (rule messaging_reachable_empty)
  then show "conversations db = []" and "messages db = []" by (simp_all add: empty_db_def)
qed

theorem every_message_insert_is_rejected_witness:
  "messaging_reachable (markMessagesAsRead (Some example_user1) example_modal 10 empty_db) \<and>
   conversations (markMessagesAsRead (Some example_user1) example_modal 10 empty_db) = [] \<and>
   messages (markMessagesAsRead (Some example_user1) example_modal 10 empty_db) = [] \<and>
   insert_message 5 10 empty_db example_message = Inl foreign_key_violation"
proof -
  have r: "messaging_reachable (markMessagesAsRead (Some example_user1) example_modal 10 empty_db)"
    by (rule mr_read [OF mr_empty])
  note e = every_message_insert_is_rejected [where db = "markMessagesAsRead (Some example_user1) example_modal 10 empty_db",
               THEN conjunct2, THEN mp, OF r]
  have f: "insert_message 5 10 empty_db example_message = Inl foreign_key_violation"
    by (simp add: insert_message_def set_message_conversation_def canonical_pair_def
        find_or_create_def select_conversation_def insert_conversation_def
        update_metadata_def int4_add_def empty_db_def example_message_def)
  show ?thesis by (rule conjI [OF r conjI [OF conjunct1 [OF e] conjI [OF conjunct2 [OF e] f]]])
qed

text \<open>
  Claim C2. For a message whose id is not stored yet, the trigger ends in an error; and
  whenever the lookup or creation of the conversation and the computation of the counter
  update both go through, that error is the violation of the foreign key from
  \<open>last_message_id\<close>: the incremented counter, the reference to the message and the
  refreshed timestamp are computed and then discarded.
\<close>

theorem counter_update_is_undone_by_last_message_reference:
  assumes fresh: "m_id NEW \<notin> m_id ` set (messages db)"
  shows "(\<exists>e. set_message_conversation now gen db NEW = Inl e)
    \<and> (\<forall>cs1 conv_id cs2.
          find_or_create now gen (min (sender_id NEW) (receiver_id NEW))
            (max (sender_id NEW) (receiver_id NEW)) (m_advertisement_id NEW) (conversations db)
            = Inr (cs1, conv_id) \<and>
          update_conversations
            (update_metadata now NEW (min (sender_id NEW) (receiver_id NEW))
               (max (sender_id NEW) (receiver_id NEW))) conv_id cs1 = Inr cs2 \<longrightarrow>
          set_message_conversation now gen db NEW = Inl foreign_key_violation)"
proof (intro conjI allI impI)
  show "\<exists>e. set_message_conversation now gen db NEW = Inl e"
    using fresh by (rule trigger_fresh_id_fails)
next
  fix cs1 conv_id cs2
  assume "find_or_create now gen (min (sender_id NEW) (receiver_id NEW))
            (max (sender_id NEW) (receiver_id NEW)) (m_advertisement_id NEW) (conversations db)
            = Inr (cs1, conv_id) \<and>
          update_conversations
            (update_metadata now NEW (min (sender_id NEW) (receiver_id NEW))
               (max (sender_id NEW) (receiver_id NEW))) conv_id cs1 = Inr cs2"
  with fresh show "set_message_conversation now gen db NEW = Inl foreign_key_violation"
    by (simp add: set_message_conversation_unfold)
qed

theorem counter_update_is_undone_by_last_message_reference_witness:
  "m_id example_message \<notin> m_id ` set (messages empty_db) \<and>
   find_or_create 5 10 (min (sender_id example_message) (receiver_id example_message))
     (max (sender_id example_message) (receiver_id example_message))
     (m_advertisement_id example_message) (conversations empty_db) =
     Inr ([\<lparr>c_id = 10, user1_id = 1, user2_id = 2, c_advertisement_id = None,
            last_message_id = None, user1_unread_count = 0, user2_unread_count = 0,
            c_created_at = 5, updated_at = 5\<rparr>], 10) \<and>
   update_conversations
     (update_metadata 5 example_message (min (sender_id example_message) (receiver_id example_message))
        (max (sender_id example_message) (receiver_id example_message))) 10
     [\<lparr>c_id = 10, user1_id = 1, user2_id = 2, c_advertisement_id = None,
       last_message_id = None, user1_unread_count = 0, user2_unread_count = 0,
       c_created_at = 5, updated_at = 5\<rparr>] =
     Inr [\<lparr>c_id = 10, user1_id = 1, user2_id = 2, c_advertisement_id = None,
           last_message_id = Some 1, user1_unread_count = 1, user2_unread_count = 0,
           c_created_at = 5, updated_at = 5\<rparr>] \<and>
   set_message_conversation 5 10 empty_db example_message = Inl foreign_key_violation"
proof -
  have fresh: "m_id example_message \<notin> m_id ` set (messages empty_db)"
    by (simp add: empty_db_def)
  have foc: "find_or_create 5 10 (min (sender_id example_message) (receiver_id example_message))
     (max (sender_id example_message) (receiver_id example_message))
     (m_advertisement_id example_message) (conversations empty_db) =
     Inr ([\<lparr>c_id = 10, user1_id = 1, user2_id = 2, c_advertisement_id = None,
            last_message_id = None, user1_unread_count = 0, user2_unread_count = 0,
            c_created_at = 5, updated_at = 5\<rparr>], 10)"
    by (simp add: find_or_create_def select_conversation_def insert_conversation_def
          empty_db_def example_message_def)
  have upd: "update_conversations
     (update_metadata 5 example_message (min (sender_id example_message) (receiver_id example_message))
        (max (sender_id example_message) (receiver_id example_message))) 10
     [\<lparr>c_id = 10, user1_id = 1, user2_id = 2, c_advertisement_id = None,
       last_message_id = None, user1_unread_count = 0, user2_unread_count = 0,
       c_created_at = 5, updated_at = 5\<rparr>] =
     Inr [\<lparr>c_id = 10, user1_id = 1, user2_id = 2, c_advertisement_id = None,
           last_message_id = Some 1, user1_unread_count = 1, user2_unread_count = 0,
           c_created_at = 5, updated_at = 5\<rparr>]"
    by (simp add: update_metadata_def int4_add_def example_message_def)
  note aborted = counter_update_is_undone_by_last_message_reference [OF fresh, where now = 5 and gen = 10, THEN conjunct2,
                     THEN spec, THEN spec, THEN spec, THEN mp, OF conjI [OF foc upd]]
  show ?thesis by (rule conjI [OF fresh conjI [OF foc conjI [OF upd aborted]]])
qed





section \<open>Advertisements: the contact invariant\<close>

text \<open>
  Claim C4. A call of create_advertisement with both contacts NULL raises the exception and
  returns no table; an INSERT of a row, or an UPDATE to a row, with both contacts NULL is
  rejected by the table; and in every table reached through create_advertisement, INSERT,
  UPDATE and DELETE each advertisement has at least one contact that is not NULL.
\<close>

theorem contact_invariant:
  "create_advertisement now gen p_user_id p_category p_subcategory p_title p_description
       p_images None None p_is_vip p_price ads =
     Inl (raise_exception ''At least one contact (Discord or Telegram) is required'')
   \<and> (discord_contact row = None \<and> telegram_contact row = None \<longrightarrow>
        (\<exists>e. insert_advertisement row ads = Inl e))
   \<and> ((\<exists>a \<in> set ads. a_id a = adId \<and> discord_contact (f a) = None \<and> telegram_contact (f a) = None)
        \<longrightarrow> (\<exists>e. update_advertisements f adId ads = Inl e))
   \<and> (advertisements_reachable ads \<longrightarrow>
        (\<forall>a \<in> set ads. discord_contact a \<noteq> None \<or> telegram_contact a \<noteq> None))"
proof (intro conjI impI)
  show "create_advertisement now gen p_user_id p_category p_subcategory p_title p_description
       p_images None None p_is_vip p_price ads =
     Inl (raise_exception ''At least one contact (Discord or Telegram) is required'')"
    by (simp add: create_advertisement_def sql_true_def sql_and_def sql_is_null_def)
next
  assume "discord_contact row = None \<and> telegram_contact row = None"
  then have "\<not> check_at_least_one_contact row" by (simp add: check_at_least_one_contact_iff)
  then show "\<exists>e. insert_advertisement row ads = Inl e"
    by (simp add: insert_advertisement_def)
next
  assume "\<exists>a \<in> set ads. a_id a = adId \<and> discord_contact (f a) = None \<and> telegram_contact (f a) = None"
  then have "\<exists>a \<in> set ads. a_id a = adId \<and> \<not> check_at_least_one_contact (f a)"
    by (auto simp: check_at_least_one_contact_iff)
  then show "\<exists>e. update_advertisements f adId ads = Inl e"
    by (simp add: update_advertisements_def)
next
  assume "advertisements_reachable ads"
  then have "\<forall>a \<in> set ads. check_at_least_one_contact a"
    by (rule advertisements_reachable_checked)
  then show "\<forall>a \<in> set ads. discord_contact a \<noteq> None \<or> telegram_contact a \<noteq> None"
    by (simp add: check_at_least_one_contact_iff)
qed

theorem contact_invariant_witness:
  "advertisements_reachable [example_chair] \<and>
   list_all (\<lambda>a. discord_contact a \<noteq> None \<or> telegram_contact a \<noteq> None) [example_chair] \<and>
   create_advertisement 4 21 (Some 8) ''home'' ''furniture'' ''Table'' ''A table'' []
      None None False None [example_chair] =
     Inl (raise_exception ''At least one contact (Discord or Telegram) is required'')"
proof -
  note t = contact_invariant
    [where ads = "[example_chair]" and now = 4 and gen = 21 and p_user_id = "Some 8"
       and p_category = "''home''" and p_subcategory = "''furniture''"
       and p_title = "''Table''" and p_description = "''A table''" and p_images = "[]"
       and p_is_vip = False and p_price = None]
  note rejected = t [THEN conjunct1]
  note stored = t [THEN conjunct2, THEN conjunct2, THEN conjunct2, THEN mp,
                   OF example_chair_reachable]
  show ?thesis
    unfolding list_all_iff
    by (rule conjI [OF example_chair_reachable conjI [OF stored rejected]])
qed


section \<open>Admin panel: protected targets\<close>





section \<open>Messaging: lookup and creation of the conversation\<close>




section \<open>Admin panel: the audit log and access\<close>

text \<open>
  Claim C7. After a successful update of a user the log append is made with actor id, target
  id, action label and detail payload, and the action ends with the success toast. When
  the append fails, for a user action, a deletion or a promotion or demotion, the mutation
  is kept, no log row is written and the success toast is shown; a diagnostic is written to
  the console only when the awaited call rejected. When the call returned an error, which
  \<open>logAction\<close> does not inspect, nothing reports the failure. When the mutation itself
  fails, only the error toast is shown.
\<close>

theorem failed_log_append_leaves_no_trace:
  "(\<forall>us. update_users (map_option u_id user) mutation_fault (build_updateData act newRole)
           targetUserId (users db) = Inr us \<longrightarrow>
      (log_fault = no_fault \<and> gen \<notin> l_id ` set (admin_logs db)
         \<and> user \<noteq> None \<and> the (map_option u_id user) \<in> u_id ` set us
         \<and> targetUserId \<in> u_id ` set us \<longrightarrow>
         handleUserAction user mutation_fault log_fault gen now targetUserId act newRole st db =
           (db\<lparr>users := us,
               admin_logs := admin_logs db @
                 [\<lparr>l_id = gen, admin_id = map_option u_id user,
                   action = action_label act newRole, target_user_id = Some targetUserId,
                   details = user_action_details act newRole targetUserId (users_state st),
                   l_created_at = now\<rparr>]\<rparr>,
            fetchData user
              (db\<lparr>users := us,
                  admin_logs := admin_logs db @
                    [\<lparr>l_id = gen, admin_id = map_option u_id user,
                      action = action_label act newRole, target_user_id = Some targetUserId,
                      details = user_action_details act newRole targetUserId (users_state st),
                      l_created_at = now\<rparr>]\<rparr>) st,
            [toast_success])) \<and>
      (log_fault \<noteq> no_fault \<longrightarrow>
         handleUserAction user mutation_fault log_fault gen now targetUserId act newRole st db =
           (db\<lparr>users := us\<rparr>, fetchData user (db\<lparr>users := us\<rparr>) st,
            (if log_fault = throws then [console_error] else []) @ [toast_success])))
   \<and> (\<forall>e. update_users (map_option u_id user) mutation_fault (build_updateData act newRole)
             targetUserId (users db) = Inl e \<longrightarrow>
        handleUserAction user mutation_fault log_fault gen now targetUserId act newRole st db =
          (db, st, [toast_error]))
   \<and> (log_fault \<noteq> no_fault \<longrightarrow>
        handleDeleteAd user True no_fault log_fault gen now adId st db =
          (db\<lparr>advertisements :=
                delete_advertisements_as (map_option u_id user) adId (advertisements db)\<rparr>,
           fetchData user
             (db\<lparr>advertisements :=
                   delete_advertisements_as (map_option u_id user) adId (advertisements db)\<rparr>) st,
           (if log_fault = throws then [console_error] else []) @ [toast_success]))
   \<and> (\<forall>ads. update_advertisements_as (map_option u_id user) (\<lambda>a. a\<lparr>is_vip := \<not> isVip\<rparr>) adId
               (advertisements db) = Inr ads \<longrightarrow>
        (log_fault \<noteq> no_fault \<longrightarrow>
           handlePromoteAd user no_fault log_fault gen now adId isVip st db =
             (db\<lparr>advertisements := ads\<rparr>, fetchData user (db\<lparr>advertisements := ads\<rparr>) st,
              (if log_fault = throws then [console_error] else []) @ [toast_success])))"
proof (intro conjI allI impI)
  fix us
  assume m: "update_users (map_option u_id user) mutation_fault (build_updateData act newRole)
           targetUserId (users db) = Inr us"
    and l: "log_fault = no_fault \<and> gen \<notin> l_id ` set (admin_logs db)
         \<and> user \<noteq> None \<and> the (map_option u_id user) \<in> u_id ` set us
         \<and> targetUserId \<in> u_id ` set us"
  from l have fresh: "gen \<notin> l_id ` set (admin_logs (db\<lparr>users := us\<rparr>))" by simp
  from l have actor: "case map_option u_id user of None \<Rightarrow> True
                      | Some i \<Rightarrow> i \<in> u_id ` set (users (db\<lparr>users := us\<rparr>))"
    by (cases user) simp_all
  from l have target: "case Some targetUserId of None \<Rightarrow> True
                      | Some i \<Rightarrow> i \<in> u_id ` set (users (db\<lparr>users := us\<rparr>))"
    by simp
  show "handleUserAction user mutation_fault log_fault gen now targetUserId act newRole st db =
           (db\<lparr>users := us,
               admin_logs := admin_logs db @
                 [\<lparr>l_id = gen, admin_id = map_option u_id user,
                   action = action_label act newRole, target_user_id = Some targetUserId,
                   details = user_action_details act newRole targetUserId (users_state st),
                   l_created_at = now\<rparr>]\<rparr>,
            fetchData user
              (db\<lparr>users := us,
                  admin_logs := admin_logs db @
                    [\<lparr>l_id = gen, admin_id = map_option u_id user,
                      action = action_label act newRole, target_user_id = Some targetUserId,
                      details = user_action_details act newRole targetUserId (users_state st),
                      l_created_at = now\<rparr>]\<rparr>) st,
            [toast_success])"
    using l by (simp add: handleUserAction_def m logAction_appended [OF fresh actor target])
next
  fix us
  assume m: "update_users (map_option u_id user) mutation_fault (build_updateData act newRole)
           targetUserId (users db) = Inr us"
    and l: "log_fault \<noteq> no_fault"
  show "handleUserAction user mutation_fault log_fault gen now targetUserId act newRole st db =
           (db\<lparr>users := us\<rparr>, fetchData user (db\<lparr>users := us\<rparr>) st,
            (if log_fault = throws then [console_error] else []) @ [toast_success])"
    by (simp add: handleUserAction_def m logAction_failed [OF l])
next
  fix e
  assume "update_users (map_option u_id user) mutation_fault (build_updateData act newRole)
             targetUserId (users db) = Inl e"
  then show "handleUserAction user mutation_fault log_fault gen now targetUserId act newRole st db =
          (db, st, [toast_error])"
    by (simp add: handleUserAction_def)
next
  assume l: "log_fault \<noteq> no_fault"
  show "handleDeleteAd user True no_fault log_fault gen now adId st db =
          (db\<lparr>advertisements :=
                delete_advertisements_as (map_option u_id user) adId (advertisements db)\<rparr>,
           fetchData user
             (db\<lparr>advertisements :=
                   delete_advertisements_as (map_option u_id user) adId (advertisements db)\<rparr>) st,
           (if log_fault = throws then [console_error] else []) @ [toast_success])"
    by (simp add: handleDeleteAd_def logAction_failed [OF l])
next
  fix ads
  assume m: "update_advertisements_as (map_option u_id user) (\<lambda>a. a\<lparr>is_vip := \<not> isVip\<rparr>) adId
               (advertisements db) = Inr ads"
    and l: "log_fault \<noteq> no_fault"
  show "handlePromoteAd user no_fault log_fault gen now adId isVip st db =
             (db\<lparr>advertisements := ads\<rparr>, fetchData user (db\<lparr>advertisements := ads\<rparr>) st,
              (if log_fault = throws then [console_error] else []) @ [toast_success])"
    by (simp add: handlePromoteAd_def m logAction_failed [OF l])
qed

theorem failed_log_append_leaves_no_trace_witness:
  "update_advertisements_as (map_option u_id (Some example_moderator))
      (\<lambda>a. a\<lparr>is_vip := \<not> False\<rparr>) 22 (advertisements example_shop_db) =
     Inr [example_lamp\<lparr>is_vip := True\<rparr>] \<and>
   handlePromoteAd (Some example_moderator) no_fault returns_error 50 9 22 False
       example_shop_panel example_shop_db =
     (example_shop_db\<lparr>advertisements := [example_lamp\<lparr>is_vip := True\<rparr>]\<rparr>,
      fetchData (Some example_moderator)
        (example_shop_db\<lparr>advertisements := [example_lamp\<lparr>is_vip := True\<rparr>]\<rparr>)
        example_shop_panel,
      [toast_success]) \<and>
   admin_logs (fst (handlePromoteAd (Some example_moderator) no_fault returns_error 50 9 22 False
                      example_shop_panel example_shop_db)) = [] \<and>
   admin_logs (fst (handlePromoteAd (Some example_moderator) no_fault no_fault 50 9 22 False
                      example_shop_panel example_shop_db)) =
     [\<lparr>l_id = 50, admin_id = Some 6, action = ''promote_advertisement'',
       target_user_id = Some 6,
       details = [(''advertisement_id'', JUuid 22), (''advertisement_title'', JString ''Lamp''),
                  (''advertisement_author'', JString ''mod'')],
       l_created_at = 9\<rparr>]"
proof -
  have f: "returns_error \<noteq> no_fault" by simp
  note kept = failed_log_append_leaves_no_trace
    [where log_fault = returns_error and db = example_shop_db and gen = 50
       and now = 9 and user = "Some example_moderator" and st = example_shop_panel
       and adId = 22 and isVip = False,
     THEN conjunct2, THEN conjunct2, THEN conjunct2, THEN spec, THEN mp,
     OF example_lamp_promoted, THEN mp, OF f]
  from kept have silent:
    "handlePromoteAd (Some example_moderator) no_fault returns_error 50 9 22 False
       example_shop_panel example_shop_db =
     (example_shop_db\<lparr>advertisements := [example_lamp\<lparr>is_vip := True\<rparr>]\<rparr>,
      fetchData (Some example_moderator)
        (example_shop_db\<lparr>advertisements := [example_lamp\<lparr>is_vip := True\<rparr>]\<rparr>)
        example_shop_panel,
      [toast_success])"
    by simp
  have unlogged:
    "admin_logs (fst (handlePromoteAd (Some example_moderator) no_fault returns_error 50 9 22 False
                      example_shop_panel example_shop_db)) = []"
    by (simp only: silent fst_conv) (simp add: example_shop_db_def)
  have logged:
    "admin_logs (fst (handlePromoteAd (Some example_moderator) no_fault no_fault 50 9 22 False
                      example_shop_panel example_shop_db)) =
     [\<lparr>l_id = 50, admin_id = Some 6, action = ''promote_advertisement'',
       target_user_id = Some 6,
       details = [(''advertisement_id'', JUuid 22), (''advertisement_title'', JString ''Lamp''),
                  (''advertisement_author'', JString ''mod'')],
       l_created_at = 9\<rparr>]"
    using example_lamp_promoted
    by (simp add: handlePromoteAd_def logAction_def ad_details_def example_shop_panel_def
          example_shop_db_def example_lamp_def example_moderator_def example_admin_def
          example_member_def)
  show ?thesis
    by (rule conjI [OF example_lamp_promoted conjI [OF silent conjI [OF unlogged logged]]])
qed

text \<open>
  Claim C8. The panel is accessible exactly to a signed-in user whose role is moderator or
  admin. The log entries the panel holds change on a fetch only for an admin, the log tab
  is rendered exactly for an admin, and a role button is rendered only for an admin. A
  click by anyone who is not admin leaves every stored role as it is. A moderator passes
  the guard, sees no log tab, fetches no logs and is offered the ban button at most.
\<close>

theorem panel_access_and_admin_only_views:
  "(panel_access user \<longleftrightarrow> (\<exists>u. user = Some u \<and> (role u = role_moderator \<or> role u = role_admin)))
   \<and> (logs (fetchData user db st) \<noteq> logs st \<longrightarrow> (\<exists>u. user = Some u \<and> role u = role_admin))
   \<and> (tab_logs \<in> set (tabs u) \<longleftrightarrow> role u = role_admin)
   \<and> (make_vip \<in> set (user_controls u targetUser) \<or> make_moderator \<in> set (user_controls u targetUser)
        \<longrightarrow> role u = role_admin)
   \<and> (role u \<noteq> role_admin \<longrightarrow>
        map role (users (fst (click_user_control (Some u) mutation_fault log_fault gen now
                                targetUser ctl st db))) = map role (users db))
   \<and> (role u = role_moderator \<longrightarrow>
        panel_access (Some u) \<and> tab_logs \<notin> set (tabs u) \<and>
        logs (fetchData (Some u) db st) = logs st \<and>
        set (user_controls u targetUser) \<subseteq> {toggle_ban})"
proof (intro conjI impI)
  show "panel_access user \<longleftrightarrow> (\<exists>u. user = Some u \<and> (role u = role_moderator \<or> role u = role_admin))"
    by (cases user) (auto simp: panel_access_def hasPermission_def)
next
  assume "logs (fetchData user db st) \<noteq> logs st"
  then show "\<exists>u. user = Some u \<and> role u = role_admin"
    by (cases user) (auto simp: fetchData_def split: if_splits)
next
  show "tab_logs \<in> set (tabs u) \<longleftrightarrow> role u = role_admin"
    by (simp add: tabs_def)
next
  assume "make_vip \<in> set (user_controls u targetUser) \<or> make_moderator \<in> set (user_controls u targetUser)"
  then show "role u = role_admin"
    by (auto simp: user_controls_def split: if_splits)
next
  assume na: "role u \<noteq> role_admin"
  then have only: "set (user_controls u targetUser) \<subseteq> {toggle_ban}"
    by (auto simp: user_controls_def split: if_splits)
  show "map role (users (fst (click_user_control (Some u) mutation_fault log_fault gen now
                                targetUser ctl st db))) = map role (users db)"
  proof (cases "panel_access (Some u) \<and> targetUser \<in> set (users_state st)
              \<and> ctl \<in> set (user_controls u targetUser)")
    case True
    with only have "ctl = toggle_ban" by auto
    with True show ?thesis
      by (simp add: click_user_control_def handleUserAction_ban_roles)
  next
    case False
    then show ?thesis by (auto simp: click_user_control_def)
  qed
next
  assume "role u = role_moderator"
  then show "panel_access (Some u)" by (simp add: panel_access_def hasPermission_def)
next
  assume "role u = role_moderator"
  then show "tab_logs \<notin> set (tabs u)" by (simp add: tabs_def)
next
  assume "role u = role_moderator"
  then show "logs (fetchData (Some u) db st) = logs st" by (simp add: fetchData_def)
next
  assume "role u = role_moderator"
  then show "set (user_controls u targetUser) \<subseteq> {toggle_ban}"
    by (auto simp: user_controls_def split: if_splits)
qed

theorem panel_access_and_admin_only_views_witness:
  "role example_moderator = role_moderator \<and>
   panel_access (Some example_moderator) \<and>
   tab_logs \<notin> set (tabs example_moderator) \<and>
   logs (fetchData (Some example_moderator) example_admin_db example_panel) = logs example_panel \<and>
   set (user_controls example_moderator example_member) \<subseteq> {toggle_ban}"
proof -
  have m: "role example_moderator = role_moderator" by (simp add: example_moderator_def)
  note t = panel_access_and_admin_only_views
    [where u = example_moderator and db = example_admin_db and st = example_panel
       and targetUser = example_member,
     THEN conjunct2, THEN conjunct2, THEN conjunct2, THEN conjunct2, THEN conjunct2,
     THEN mp, OF m]
  show ?thesis by (rule conjI [OF m t])
qed


section \<open>Messaging: the conversation link and the start of a conversation\<close>



text \<open>
  Claim C10. For a signed-in user, when the list the modal holds has a conversation with
  the recipient, whatever its advertisement, \<open>startConversation\<close> selects the first such
  conversation, sends nothing and leaves the store as it is. When the list has none, the
  greeting carrying the advertisement is inserted; the insert is rejected, the store and the
  modal stay as they were and the error toast is shown: no conversation is created.
\<close>

theorem start_conversation_reuses_or_fails:
  assumes user: "user = Some u"
  shows "(\<forall>existingConv.
            find (\<lambda>conv. (user1_id conv = u_id u \<and> user2_id conv = recipientId)
                         \<or> (user2_id conv = u_id u \<and> user1_id conv = recipientId))
                 (conversations_state st) = Some existingConv \<longrightarrow>
            startConversation user now gen_m gen_c recipientId advertisementId st db =
              (db, st\<lparr>selectedConversation := Some (c_id existingConv)\<rparr>, []))
     \<and> (\<not> (\<exists>conv \<in> set (conversations_state st).
             (user1_id conv = u_id u \<and> user2_id conv = recipientId)
             \<or> (user2_id conv = u_id u \<and> user1_id conv = recipientId)) \<longrightarrow>
          (\<exists>e. insert_message now gen_c db
                    \<lparr>m_id = gen_m, sender_id = u_id u, receiver_id = recipientId,
                     conversation_id = None, m_advertisement_id = advertisementId,
                     content = greeting, is_read = False, m_created_at = now\<rparr> = Inl e) \<and>
          startConversation user now gen_m gen_c recipientId advertisementId st db =
            (db, st, [toast_error]))"
proof (intro conjI allI impI)
  fix existingConv
  assume "find (\<lambda>conv. (user1_id conv = u_id u \<and> user2_id conv = recipientId)
                         \<or> (user2_id conv = u_id u \<and> user1_id conv = recipientId))
                 (conversations_state st) = Some existingConv"
  then show "startConversation user now gen_m gen_c recipientId advertisementId st db =
              (db, st\<lparr>selectedConversation := Some (c_id existingConv)\<rparr>, [])"
    by (simp add: startConversation_def user)
next
  show "\<exists>e. insert_message now gen_c db
                    \<lparr>m_id = gen_m, sender_id = u_id u, receiver_id = recipientId,
                     conversation_id = None, m_advertisement_id = advertisementId,
                     content = greeting, is_read = False, m_created_at = now\<rparr> = Inl e"
    by (rule insert_message_fails)
next
  assume "\<not> (\<exists>conv \<in> set (conversations_state st).
             (user1_id conv = u_id u \<and> user2_id conv = recipientId)
             \<or> (user2_id conv = u_id u \<and> user1_id conv = recipientId))"
  then have none: "find (\<lambda>conv. (user1_id conv = u_id u \<and> user2_id conv = recipientId)
                         \<or> (user2_id conv = u_id u \<and> user1_id conv = recipientId))
                 (conversations_state st) = None"
    by (auto simp: find_None_iff)
  obtain e where "insert_message now gen_c db
                    \<lparr>m_id = gen_m, sender_id = u_id u, receiver_id = recipientId,
                     conversation_id = None, m_advertisement_id = advertisementId,
                     content = greeting, is_read = False, m_created_at = now\<rparr> = Inl e"
    using insert_message_fails by blast
  then show "startConversation user now gen_m gen_c recipientId advertisementId st db =
            (db, st, [toast_error])"
    by (simp add: startConversation_def user none)
qed

theorem start_conversation_reuses_or_fails_witness:
  "startConversation (Some example_user1) 7 3 12 2 None example_modal empty_db =
     (empty_db, example_modal, [toast_error])"
proof -
  have none: "\<not> (\<exists>conv \<in> set (conversations_state example_modal).
             (user1_id conv = u_id example_user1 \<and> user2_id conv = 2)
             \<or> (user2_id conv = u_id example_user1 \<and> user1_id conv = 2))"
    by (simp add: example_modal_def)
  show ?thesis
    by (rule start_conversation_reuses_or_fails [OF refl, where u = example_user1 and st = example_modal and recipientId = 2,
                  THEN conjunct2, THEN mp, OF none, THEN conjunct2])
qed

end
